theory Spec2Isabelle
  imports Main
begin

section \<open>Data model of \<open>nova/compute/api.py\<close>\<close>

text \<open>
  The module is a facade over a record store (\<open>nova.db\<close>), a quota subsystem, an image
  service and a message transport (\<open>nova.rpc\<close>). The facade is embedded function by
  function. What the collaborators hold is an explicit \<open>world\<close>; what they compute and
  the module cannot see (flags, quota, images, random identifiers, the clock) is an
  environment \<open>env\<close> of parameters.
\<close>

subsection \<open>Security context\<close>

record request_context =
  ctx_user_id :: string
  ctx_project_id :: string
  is_admin :: bool

text \<open>
  The store operations below take no context: \<open>context.elevated()\<close>, which the loop of
  \<open>create_instances\<close> passes to \<open>instance_add_security_group\<close>, has no counterpart.
\<close>

subsection \<open>Instance records\<close>

text \<open>
  \<open>base_options\<close> of \<open>create_instances\<close> is the record \<open>instance_values\<close>; the dictionary
  handed to \<open>db.instance_create\<close> adds \<open>mac_address\<close> and \<open>launch_index\<close>; a stored
  instance adds the columns the store itself fills. The column \<open>id\<close> is \<open>inst_id\<close>
  here. A column that may hold Python's \<open>None\<close> is an option.
\<close>

record instance_values =
  reservation_id :: string
  image_id :: string
  kernel_id :: string
  ramdisk_id :: string
  state_description :: string
  user_id :: string
  project_id :: string
  launch_time :: string
  instance_type :: string
  memory_mb :: int
  vcpus :: int
  local_gb :: int
  display_name :: string
  display_description :: string
  user_data :: string
  key_name :: "string option"
  key_data :: "string option"
  locked :: bool

record created_values = instance_values +
  mac_address :: string
  launch_index :: int

record inst = created_values +
  inst_id :: int
  internal_id :: int
  hostname :: "string option"
  host :: "string option"
  state :: "int option"
  terminated_at :: "string option"
  security_group_ids :: "int list"

text \<open>The keyword arguments of \<open>update_instance\<close>, one constructor per column written.\<close>

datatype field_update =
    Hostname string
  | DisplayName string
  | StateDescription string
  | State int
  | TerminatedAt string

fun apply_update :: "field_update \<Rightarrow> inst \<Rightarrow> inst" where
  "apply_update (Hostname h) r = r\<lparr>hostname := Some h\<rparr>"
| "apply_update (DisplayName n) r = r\<lparr>display_name := n\<rparr>"
| "apply_update (StateDescription s) r = r\<lparr>state_description := s\<rparr>"
| "apply_update (State n) r = r\<lparr>state := Some n\<rparr>"
| "apply_update (TerminatedAt t) r = r\<lparr>terminated_at := Some t\<rparr>"

definition apply_updates :: "field_update list \<Rightarrow> inst \<Rightarrow> inst" where
  "apply_updates ups r = fold apply_update ups r"

subsection \<open>Security groups, images, instance types, key pairs\<close>

record security_group =
  sg_id :: int
  sg_name :: string
  sg_description :: string
  sg_user_id :: string
  sg_project_id :: string

record image =
  kernelId :: "string option"
  ramdiskId :: "string option"

record type_data =
  td_memory_mb :: int
  td_vcpus :: int
  td_local_gb :: int

subsection \<open>Messages\<close>

datatype arg = ArgStr string | ArgInt int

record message =
  msg_method :: string
  msg_args :: "(string \<times> arg) list"

subsection \<open>Errors\<close>

text \<open>
  \<open>NotFound\<close> is \<open>exception.NotFound\<close>; \<open>QuotaError n code\<close> is \<open>quota.QuotaError\<close> with
  the count printed in its message and its code; \<open>KeyError\<close> is the failed lookup in
  \<open>INSTANCE_TYPES\<close>. The decorator raises the builtin \<open>Exception\<close> twice, told apart by
  the message: \<open>LockArgumentError\<close> is
  \<^verbatim>\<open>Exception("check_instance_lock argument error |%s|, |%s|", args, kwargs)\<close> and
  \<open>InstanceLocked f\<close> is \<^verbatim>\<open>Exception("Instance is locked, cannot execute |%s|", function)\<close>
  for the wrapped function named \<open>f\<close>.
\<close>

datatype error =
    NotFound
  | QuotaError int string
  | KeyError string
  | LockArgumentError
  | InstanceLocked string

subsection \<open>The world and the environment\<close>

record world =
  instances :: "inst list"
  security_groups :: "security_group list"
  casts :: "(string \<times> message) list"
  entropy :: nat

text \<open>
  \<open>casts\<close> is the log of \<open>rpc.cast(context, topic, message)\<close>, oldest first.
  \<open>entropy\<close> counts the random draws made so far: \<open>utils.generate_uid\<close> and
  \<open>utils.generate_mac\<close> are random in the source, here the functions \<open>generate_uid\<close> and
  \<open>generate_mac\<close> of the draw's number.
\<close>

record env =
  vpn_image_id :: string
  null_kernel :: string
  scheduler_topic :: string
  compute_topic :: string
  allowed_instances :: "request_context \<Rightarrow> int \<Rightarrow> string \<Rightarrow> int"
  image_show :: "string \<Rightarrow> image option"
  key_pair_get :: "string \<Rightarrow> string \<Rightarrow> string option"
  INSTANCE_TYPES :: "string \<Rightarrow> type_data option"
  queue_get_for :: "string \<Rightarrow> string option \<Rightarrow> string"
  generate_uid :: "nat \<Rightarrow> string \<Rightarrow> string"
  generate_mac :: "nat \<Rightarrow> string"
  generate_internal_id :: "inst list \<Rightarrow> int"
  launch_time_now :: string
  utcnow :: string

type_synonym 'a result = "(error + 'a) \<times> world"

section \<open>The record store\<close>

text \<open>
  Modelled from the spec: the module \<open>nova.db\<close> is not part of the source given. The
  spec lists its operations (\<open>get_by_internal_id\<close>, \<open>create\<close>, \<open>update\<close>, \<open>destroy\<close>,
  \<open>add_security_group\<close>, \<open>security_group_get_by_name\<close>, \<open>security_group_create\<close>) and
  says that each read by identifier fails with \<open>NotFound\<close> if the record is absent and
  that \<open>id\<close> is unique. Here the store is the list \<open>instances\<close>, a read takes the first
  record with the identifier, and \<open>create\<close> gives the new record an \<open>id\<close> above every
  \<open>id\<close> in the store and the \<open>internal_id\<close> that the environment generates.
\<close>

definition instance_get_by_internal_id :: "world \<Rightarrow> int \<Rightarrow> inst option" where
  "instance_get_by_internal_id w k = find (\<lambda>r. internal_id r = k) (instances w)"

definition instance_get :: "world \<Rightarrow> int \<Rightarrow> inst option" where
  "instance_get w i = find (\<lambda>r. inst_id r = i) (instances w)"

definition next_instance_id :: "inst list \<Rightarrow> int" where
  "next_instance_id rs = foldr max (map inst_id rs) 0 + 1"

definition instance_create :: "env \<Rightarrow> created_values \<Rightarrow> world \<Rightarrow> inst \<times> world" where
  "instance_create e v w =
     (let r = created_values.extend v
                (inst.fields (next_instance_id (instances w))
                   (generate_internal_id e (instances w)) None None None None [])
      in (r, w\<lparr>instances := instances w @ [r]\<rparr>))"

fun update_first :: "int \<Rightarrow> (inst \<Rightarrow> inst) \<Rightarrow> inst list \<Rightarrow> inst list" where
  "update_first i f [] = []"
| "update_first i f (r # rs) =
     (if inst_id r = i then f r # rs else r # update_first i f rs)"

definition instance_update :: "int \<Rightarrow> field_update list \<Rightarrow> world \<Rightarrow> inst result" where
  "instance_update i ups w =
     (case instance_get w i of
        None \<Rightarrow> (Inl NotFound, w)
      | Some r \<Rightarrow>
          (Inr (apply_updates ups r),
           w\<lparr>instances := update_first i (apply_updates ups) (instances w)\<rparr>))"

definition instance_destroy :: "int \<Rightarrow> world \<Rightarrow> unit result" where
  "instance_destroy i w =
     (case instance_get w i of
        None \<Rightarrow> (Inl NotFound, w)
      | Some r \<Rightarrow> (Inr (), w\<lparr>instances := filter (\<lambda>r. inst_id r \<noteq> i) (instances w)\<rparr>))"

definition instance_add_security_group :: "int \<Rightarrow> int \<Rightarrow> world \<Rightarrow> unit result" where
  "instance_add_security_group i g w =
     (case instance_get w i of
        None \<Rightarrow> (Inl NotFound, w)
      | Some r \<Rightarrow>
          (Inr (),
           w\<lparr>instances :=
               update_first i (\<lambda>r. r\<lparr>security_group_ids := security_group_ids r @ [g]\<rparr>)
                 (instances w)\<rparr>))"

definition security_group_get_by_name :: "world \<Rightarrow> string \<Rightarrow> string \<Rightarrow> security_group option" where
  "security_group_get_by_name w p n =
     find (\<lambda>g. sg_project_id g = p \<and> sg_name g = n) (security_groups w)"

definition security_group_create :: "string \<Rightarrow> string \<Rightarrow> string \<Rightarrow> string \<Rightarrow> world \<Rightarrow> world" where
  "security_group_create n d u p w =
     w\<lparr>security_groups := security_groups w @
         [\<lparr>sg_id = foldr max (map sg_id (security_groups w)) 0 + 1, sg_name = n,
           sg_description = d, sg_user_id = u, sg_project_id = p\<rparr>]\<rparr>"

text \<open>\<open>rpc.cast\<close>: fire and forget; the message is appended to the log.\<close>

definition cast :: "string \<Rightarrow> message \<Rightarrow> world \<Rightarrow> world" where
  "cast topic msg w = w\<lparr>casts := casts w @ [(topic, msg)]\<rparr>"

section \<open>The lock guard\<close>

definition get_instance :: "request_context \<Rightarrow> int \<Rightarrow> world \<Rightarrow> inst result" where
  "get_instance ctx instance_id w =
     (case instance_get_by_internal_id w instance_id of
        None \<Rightarrow> (Inl NotFound, w)
      | Some r \<Rightarrow> (Inr r, w))"

definition get_lock :: "request_context \<Rightarrow> int \<Rightarrow> world \<Rightarrow> bool result" where
  "get_lock ctx instance_id w =
     (case get_instance ctx instance_id w of
        (Inl e, w') \<Rightarrow> (Inl e, w')
      | (Inr r, w') \<Rightarrow> (Inr (locked r), w'))"

text \<open>
  \<open>checks_instance_lock\<close>: the decorator. The wrapped function is called with a context
  and an identifier, so the two reads of \<open>args\<close> and \<open>kwargs\<close> succeed; what can raise
  inside the \<open>try\<close> is \<open>get_lock\<close>, and the bare \<open>except\<close> turns whatever it raises into
  the argument error. \<open>fname\<close> names the wrapped function for the message of the
  locked error.
\<close>

definition checks_instance_lock ::
  "string \<Rightarrow> (world \<Rightarrow> 'a result) \<Rightarrow> request_context \<Rightarrow> int \<Rightarrow> world \<Rightarrow> 'a result" where
  "checks_instance_lock fname function ctx instance_id w =
     (case get_lock ctx instance_id w of
        (Inl e, w') \<Rightarrow> (Inl LockArgumentError, w')
      | (Inr is_locked, w') \<Rightarrow>
          if is_admin ctx \<or> \<not> is_locked then function w'
          else (Inl (InstanceLocked fname), w'))"

section \<open>The facade\<close>

subsection \<open>\<open>update_instance\<close>\<close>

definition update_instance_undecorated ::
  "request_context \<Rightarrow> int \<Rightarrow> field_update list \<Rightarrow> world \<Rightarrow> inst result" where
  "update_instance_undecorated ctx instance_id kwargs w = instance_update instance_id kwargs w"

definition update_instance ::
  "request_context \<Rightarrow> int \<Rightarrow> field_update list \<Rightarrow> world \<Rightarrow> inst result" where
  "update_instance ctx instance_id kwargs =
     checks_instance_lock ''update_instance''
       (update_instance_undecorated ctx instance_id kwargs) ctx instance_id"

subsection \<open>\<open>delete_instance\<close>\<close>

definition truthy :: "string option \<Rightarrow> bool" where
  "truthy s = (case s of None \<Rightarrow> False | Some x \<Rightarrow> x \<noteq> [])"

definition instance_id_args :: "int \<Rightarrow> (string \<times> arg) list" where
  "instance_id_args i = [(''instance_id'', ArgInt i)]"

definition delete_instance_undecorated ::
  "env \<Rightarrow> request_context \<Rightarrow> int \<Rightarrow> world \<Rightarrow> unit result" where
  "delete_instance_undecorated e ctx instance_id w =
     (case instance_get_by_internal_id w instance_id of
        None \<Rightarrow> (Inl NotFound, w)
      | Some instance \<Rightarrow>
          if state_description instance = ''terminating'' then (Inr (), w)
          else
            (case update_instance ctx (inst_id instance)
                    [StateDescription ''terminating'', State 0, TerminatedAt (utcnow e)] w of
               (Inl err, w1) \<Rightarrow> (Inl err, w1)
             | (Inr u, w1) \<Rightarrow>
                 if truthy (host instance)
                 then (Inr (),
                       cast (queue_get_for e (compute_topic e) (host instance))
                         \<lparr>msg_method = ''terminate_instance'',
                          msg_args = instance_id_args (inst_id instance)\<rparr> w1)
                 else instance_destroy (inst_id instance) w1))"

definition delete_instance :: "env \<Rightarrow> request_context \<Rightarrow> int \<Rightarrow> world \<Rightarrow> unit result" where
  "delete_instance e ctx instance_id =
     checks_instance_lock ''delete_instance''
       (delete_instance_undecorated e ctx instance_id) ctx instance_id"

subsection \<open>The dispatching verbs\<close>

text \<open>
  \<open>reboot\<close>, \<open>pause\<close>, \<open>unpause\<close>, \<open>suspend\<close>, \<open>resume\<close>, \<open>rescue\<close>, \<open>unrescue\<close>, \<open>lock\<close> and
  \<open>unlock\<close> have one body in the source, up to the name of the call in the message: read
  the instance by \<open>internal_id\<close>, take its \<open>host\<close>, cast to
  \<open>queue_get_for(context, FLAGS.compute_topic, host)\<close>. \<open>cast_to_host\<close> is that body.
\<close>

definition cast_to_host :: "env \<Rightarrow> string \<Rightarrow> request_context \<Rightarrow> int \<Rightarrow> world \<Rightarrow> unit result" where
  "cast_to_host e meth ctx instance_id w =
     (case instance_get_by_internal_id w instance_id of
        None \<Rightarrow> (Inl NotFound, w)
      | Some instance \<Rightarrow>
          (Inr (),
           cast (queue_get_for e (compute_topic e) (host instance))
             \<lparr>msg_method = meth, msg_args = instance_id_args (inst_id instance)\<rparr> w))"

definition reboot_undecorated :: "env \<Rightarrow> request_context \<Rightarrow> int \<Rightarrow> world \<Rightarrow> unit result" where
  "reboot_undecorated e = cast_to_host e ''reboot_instance''"







definition reboot :: "env \<Rightarrow> request_context \<Rightarrow> int \<Rightarrow> world \<Rightarrow> unit result" where
  "reboot e ctx instance_id =
     checks_instance_lock ''reboot'' (reboot_undecorated e ctx instance_id) ctx instance_id"









subsection \<open>\<open>create_instances\<close>\<close>

datatype security_group_arg = SGNone | SGName string | SGList "string list"

record create_args =
  arg_instance_type :: string
  arg_image_id :: string
  arg_min_count :: int
  arg_max_count :: int
  arg_kernel_id :: "string option"
  arg_ramdisk_id :: "string option"
  arg_display_name :: string
  arg_description :: string
  arg_key_name :: "string option"
  arg_key_data :: "string option"
  arg_security_group :: security_group_arg
  arg_user_data :: "string option"
  arg_generate_hostname :: "int \<Rightarrow> string"

text \<open>\<open>str\<close> of an integer, for \<open>generate_default_hostname\<close>.\<close>

fun str_nat :: "nat \<Rightarrow> string" where
  "str_nat n =
     (if n < 10 then [char_of (48 + n)] else str_nat (n div 10) @ [char_of (48 + n mod 10)])"

definition str_int :: "int \<Rightarrow> string" where
  "str_int i = (if i < 0 then CHR ''-'' # str_nat (nat (- i)) else str_nat (nat i))"

definition generate_default_hostname :: "int \<Rightarrow> string" where
  "generate_default_hostname iid = str_int iid"

definition or_empty :: "string option \<Rightarrow> string" where
  "or_empty s = (case s of None \<Rightarrow> [] | Some x \<Rightarrow> x)"

text \<open>
  Lines 130 to 146: the kernel and the ramdisk that the request resolves to, or the
  \<open>NotFound\<close> of \<open>image_service.show\<close>.
\<close>

definition show_if_truthy :: "env \<Rightarrow> string option \<Rightarrow> bool" where
  "show_if_truthy e x =
     (case x of None \<Rightarrow> True | Some s \<Rightarrow> s = [] \<or> image_show e s \<noteq> None)"

definition resolve_kernel_ramdisk ::
  "env \<Rightarrow> string \<Rightarrow> string option \<Rightarrow> string option \<Rightarrow> error + (string option \<times> string option)" where
  "resolve_kernel_ramdisk e img kid rid =
     (if img = vpn_image_id e then Inr (kid, rid)
      else
        (case image_show e img of
           None \<Rightarrow> Inl NotFound
         | Some meta \<Rightarrow>
             (let k1 = (if kid = None then kernelId meta else kid);
                  r1 = (if rid = None then ramdiskId meta else rid);
                  k2 = (if k1 = Some (null_kernel e) then None else k1);
                  r2 = (if k1 = Some (null_kernel e) then None else r1)
              in if \<not> show_if_truthy e k2 then Inl NotFound
                 else if \<not> show_if_truthy e r2 then Inl NotFound
                 else Inr (k2, r2))))"

definition ensure_default_security_group :: "request_context \<Rightarrow> world \<Rightarrow> world" where
  "ensure_default_security_group ctx w =
     (case security_group_get_by_name w (ctx_project_id ctx) ''default'' of
        Some g \<Rightarrow> w
      | None \<Rightarrow>
          security_group_create ''default'' ''default'' (ctx_user_id ctx) (ctx_project_id ctx) w)"

definition normalize_security_group :: "security_group_arg \<Rightarrow> string list" where
  "normalize_security_group sg =
     (case sg of SGNone \<Rightarrow> [''default''] | SGName n \<Rightarrow> [n] | SGList ns \<Rightarrow> ns)"

fun resolve_security_groups :: "world \<Rightarrow> string \<Rightarrow> string list \<Rightarrow> error + int list" where
  "resolve_security_groups w p [] = Inr []"
| "resolve_security_groups w p (n # ns) =
     (case security_group_get_by_name w p n of
        None \<Rightarrow> Inl NotFound
      | Some g \<Rightarrow>
          (case resolve_security_groups w p ns of
             Inl err \<Rightarrow> Inl err
           | Inr ids \<Rightarrow> Inr (sg_id g # ids)))"

definition resolve_key_data ::
  "env \<Rightarrow> request_context \<Rightarrow> string option \<Rightarrow> string option \<Rightarrow> error + string option" where
  "resolve_key_data e ctx kname kdata =
     (if kdata = None \<and> truthy kname
      then (case key_pair_get e (ctx_user_id ctx) (or_empty kname) of
              None \<Rightarrow> Inl NotFound
            | Some public_key \<Rightarrow> Inr (Some public_key))
      else Inr kdata)"

fun add_security_groups :: "int \<Rightarrow> int list \<Rightarrow> world \<Rightarrow> unit result" where
  "add_security_groups i [] w = (Inr (), w)"
| "add_security_groups i (g # gs) w =
     (case instance_add_security_group i g w of
        (Inl err, w') \<Rightarrow> (Inl err, w')
      | (Inr u, w') \<Rightarrow> add_security_groups i gs w')"

definition run_instance_message :: "env \<Rightarrow> int \<Rightarrow> message" where
  "run_instance_message e i =
     \<lparr>msg_method = ''run_instance'',
      msg_args = [(''topic'', ArgStr (compute_topic e)), (''instance_id'', ArgInt i)]\<rparr>"

text \<open>
  The loop of lines 189 to 219 over \<open>range(num_instances)\<close>, with the list \<open>instances\<close>
  as accumulator. The dictionary given to \<open>db.instance_create\<close> always has the key
  \<open>display_name\<close>, so the record that comes back has it and \<open>updates\<close> is the hostname
  alone. An exception leaves the loop with the world as it then is: what was stored
  and cast before stays.
\<close>

fun create_loop ::
  "env \<Rightarrow> request_context \<Rightarrow> instance_values \<Rightarrow> int list \<Rightarrow> (int \<Rightarrow> string) \<Rightarrow>
   int list \<Rightarrow> inst list \<Rightarrow> world \<Rightarrow> inst list result" where
  "create_loop e ctx base_options sgs gen_hostname [] acc w = (Inr acc, w)"
| "create_loop e ctx base_options sgs gen_hostname (num # nums) acc w =
     (let mac = generate_mac e (entropy w);
          w0 = w\<lparr>entropy := Suc (entropy w)\<rparr>;
          created = instance_create e
                      (instance_values.extend base_options (created_values.fields mac num)) w0;
          instance = fst created;
          w1 = snd created
      in case add_security_groups (inst_id instance) sgs w1 of
           (Inl err, w2) \<Rightarrow> (Inl err, w2)
         | (Inr u, w2) \<Rightarrow>
             (case update_instance ctx (inst_id instance)
                     [Hostname (gen_hostname (internal_id instance))] w2 of
                (Inl err, w3) \<Rightarrow> (Inl err, w3)
              | (Inr updated, w3) \<Rightarrow>
                  create_loop e ctx base_options sgs gen_hostname nums (acc @ [updated])
                    (cast (scheduler_topic e) (run_instance_message e (inst_id instance)) w3)))"

definition make_base_options ::
  "env \<Rightarrow> request_context \<Rightarrow> create_args \<Rightarrow> string option \<Rightarrow> string option \<Rightarrow>
   string option \<Rightarrow> type_data \<Rightarrow> string \<Rightarrow> instance_values" where
  "make_base_options e ctx a kid rid kdata td rsv =
     \<lparr>reservation_id = rsv,
      image_id = arg_image_id a,
      kernel_id = or_empty kid,
      ramdisk_id = or_empty rid,
      state_description = ''scheduling'',
      user_id = ctx_user_id ctx,
      project_id = ctx_project_id ctx,
      launch_time = launch_time_now e,
      instance_type = arg_instance_type a,
      memory_mb = td_memory_mb td,
      vcpus = td_vcpus td,
      local_gb = td_local_gb td,
      display_name = arg_display_name a,
      display_description = arg_description a,
      user_data = or_empty (arg_user_data a),
      key_name = arg_key_name a,
      key_data = kdata,
      locked = False\<rparr>"

definition range_int :: "int \<Rightarrow> int list" where
  "range_int n = map int [0..<nat n]"

definition create_instances :: "env \<Rightarrow> request_context \<Rightarrow> create_args \<Rightarrow> world \<Rightarrow> inst list result" where
  "create_instances e ctx a w =
     (let num_instances = allowed_instances e ctx (arg_max_count a) (arg_instance_type a)
      in if num_instances < arg_min_count a
         then (Inl (QuotaError num_instances ''InstanceLimitExceeded''), w)
         else
           (case resolve_kernel_ramdisk e (arg_image_id a) (arg_kernel_id a) (arg_ramdisk_id a) of
              Inl err \<Rightarrow> (Inl err, w)
            | Inr (kid, rid) \<Rightarrow>
                (let w1 = ensure_default_security_group ctx w
                 in case resolve_security_groups w1 (ctx_project_id ctx)
                           (normalize_security_group (arg_security_group a)) of
                      Inl err \<Rightarrow> (Inl err, w1)
                    | Inr sgs \<Rightarrow>
                        (case resolve_key_data e ctx (arg_key_name a) (arg_key_data a) of
                           Inl err \<Rightarrow> (Inl err, w1)
                         | Inr kdata \<Rightarrow>
                             (case INSTANCE_TYPES e (arg_instance_type a) of
                                None \<Rightarrow> (Inl (KeyError (arg_instance_type a)), w1)
                              | Some td \<Rightarrow>
                                  create_loop e ctx
                                    (make_base_options e ctx a kid rid kdata td
                                       (generate_uid e (entropy w1) ''r''))
                                    sgs (arg_generate_hostname a) (range_int num_instances) []
                                    (w1\<lparr>entropy := Suc (entropy w1)\<rparr>))))))"

section \<open>Concrete inputs\<close>

text \<open>
  A small deployment, used where a property is evaluated at a concrete input. In
  \<open>example_env\<close> the store draws the \<open>internal_id\<close> apart from the \<open>id\<close>; in
  \<open>aligned_env\<close> the two coincide for every record created.
\<close>

definition example_images :: "string \<Rightarrow> image option" where
  "example_images i =
     (if i = ''img-1'' then Some \<lparr>kernelId = Some ''aki-1'', ramdiskId = Some ''ari-1''\<rparr>
      else if i = ''img-raw'' then Some \<lparr>kernelId = Some ''aki-00000000'', ramdiskId = None\<rparr>
      else if i = ''aki-1'' \<or> i = ''ari-1'' then Some \<lparr>kernelId = None, ramdiskId = None\<rparr>
      else None)"

definition example_queue :: "string \<Rightarrow> string option \<Rightarrow> string" where
  "example_queue topic h = topic @ ''.'' @ (case h of None \<Rightarrow> ''None'' | Some x \<Rightarrow> x)"

definition example_env :: env where
  "example_env =
     \<lparr>vpn_image_id = ''ami-vpn'',
      null_kernel = ''aki-00000000'',
      scheduler_topic = ''scheduler'',
      compute_topic = ''compute'',
      allowed_instances = (\<lambda>ctx n t. min n 2),
      image_show = example_images,
      key_pair_get = (\<lambda>u n. None),
      INSTANCE_TYPES =
        (\<lambda>t. if t = ''m1.small''
             then Some \<lparr>td_memory_mb = 2048, td_vcpus = 1, td_local_gb = 20\<rparr> else None),
      queue_get_for = example_queue,
      generate_uid = (\<lambda>n p. p @ ''-'' @ str_nat n),
      generate_mac = (\<lambda>n. ''02:16:3e:00:00:0'' @ str_nat n),
      generate_internal_id = (\<lambda>rs. 1000 + next_instance_id rs),
      launch_time_now = ''2010-12-01T00:00:00Z'',
      utcnow = ''2010-12-02 00:00:00''\<rparr>"

definition aligned_env :: env where
  "aligned_env = example_env\<lparr>generate_internal_id := next_instance_id\<rparr>"

definition user_ctx :: request_context where
  "user_ctx = \<lparr>ctx_user_id = ''alice'', ctx_project_id = ''proj'', is_admin = False\<rparr>"


definition example_instance :: inst where
  "example_instance =
     \<lparr>reservation_id = ''r-0'',
      image_id = ''img-1'',
      kernel_id = ''aki-1'',
      ramdisk_id = ''ari-1'',
      state_description = ''running'',
      user_id = ''alice'',
      project_id = ''proj'',
      launch_time = ''2010-12-01T00:00:00Z'',
      instance_type = ''m1.small'',
      memory_mb = 2048,
      vcpus = 1,
      local_gb = 20,
      display_name = ''web'',
      display_description = [],
      user_data = [],
      key_name = None,
      key_data = None,
      locked = False,
      mac_address = ''02:16:3e:00:00:01'',
      launch_index = 0,
      inst_id = 1,
      internal_id = 42,
      hostname = Some ''42'',
      host = Some ''node1'',
      state = Some 1,
      terminated_at = None,
      security_group_ids = []\<rparr>"

definition store_of :: "inst list \<Rightarrow> world" where
  "store_of rs = \<lparr>instances = rs, security_groups = [], casts = [], entropy = 0\<rparr>"

definition example_args :: create_args where
  "example_args =
     \<lparr>arg_instance_type = ''m1.small'',
      arg_image_id = ''img-1'',
      arg_min_count = 2,
      arg_max_count = 3,
      arg_kernel_id = None,
      arg_ramdisk_id = None,
      arg_display_name = [],
      arg_description = [],
      arg_key_name = None,
      arg_key_data = None,
      arg_security_group = SGName ''default'',
      arg_user_data = None,
      arg_generate_hostname = generate_default_hostname\<rparr>"

definition locked_instance :: inst where
  "locked_instance = example_instance\<lparr>locked := True\<rparr>"


definition aligned_instance :: inst where
  "aligned_instance = example_instance\<lparr>internal_id := 1\<rparr>"



definition shadowing_instance :: inst where
  "shadowing_instance = locked_instance\<lparr>inst_id := 2, internal_id := 1\<rparr>"

section \<open>Properties of the store and of the guard\<close>

lemma checks_instance_lock_found:
  "instance_get_by_internal_id w k = Some r \<Longrightarrow>
   checks_instance_lock f body ctx k w =
     (if is_admin ctx \<or> \<not> locked r then body w else (Inl (InstanceLocked f), w))"
  by (simp add: checks_instance_lock_def get_lock_def get_instance_def)

lemma checks_instance_lock_missing:
  "instance_get_by_internal_id w k = None \<Longrightarrow>
   checks_instance_lock f body ctx k w = (Inl LockArgumentError, w)"
  by (simp add: checks_instance_lock_def get_lock_def get_instance_def)

lemma foldr_max_ge: "r \<in> set rs \<Longrightarrow> inst_id r \<le> foldr max (map inst_id rs) 0"
  by (induction rs) auto

lemma next_instance_id_fresh: "r \<in> set rs \<Longrightarrow> inst_id r < next_instance_id rs"
  using foldr_max_ge [of r rs] by (simp add: next_instance_id_def)

lemma find_id_append_fresh:
  "\<forall>x\<in>set xs. inst_id x \<noteq> inst_id r \<Longrightarrow> find (\<lambda>x. inst_id x = inst_id r) (xs @ [r]) = Some r"
  by (induction xs) auto

lemma update_first_append_fresh:
  "\<forall>x\<in>set xs. inst_id x \<noteq> inst_id r \<Longrightarrow> update_first (inst_id r) f (xs @ [r]) = xs @ [f r]"
  by (induction xs) auto

lemma add_security_groups_fresh:
  "\<forall>x\<in>set xs. inst_id x \<noteq> inst_id r \<Longrightarrow> instances w = xs @ [r] \<Longrightarrow>
   add_security_groups (inst_id r) gs w =
     (Inr (), w\<lparr>instances := xs @ [r\<lparr>security_group_ids := security_group_ids r @ gs\<rparr>]\<rparr>)"
proof (induction gs arbitrary: r w)
  case Nil
  then show ?case by simp
next
  case (Cons g gs)
  let ?r = "r\<lparr>security_group_ids := security_group_ids r @ [g]\<rparr>"
  let ?w = "w\<lparr>instances := xs @ [?r]\<rparr>"
  have step: "instance_add_security_group (inst_id r) g w = (Inr (), ?w)"
    using Cons.prems
    by (simp add: instance_add_security_group_def instance_get_def find_id_append_fresh
        update_first_append_fresh)
  have "add_security_groups (inst_id ?r) gs ?w =
          (Inr (), ?w\<lparr>instances := xs @ [?r\<lparr>security_group_ids := security_group_ids ?r @ gs\<rparr>]\<rparr>)"
    by (rule Cons.IH) (use Cons.prems in simp_all)
  with step show ?case by simp
qed

lemma instance_update_fresh:
  "\<forall>x\<in>set xs. inst_id x \<noteq> inst_id r \<Longrightarrow> instances w = xs @ [r] \<Longrightarrow>
   instance_update (inst_id r) ups w =
     (Inr (apply_updates ups r), w\<lparr>instances := xs @ [apply_updates ups r]\<rparr>)"
  by (simp add: instance_update_def instance_get_def find_id_append_fresh update_first_append_fresh)


lemma instance_create_id:
  "inst_id (fst (instance_create e v w)) = next_instance_id (instances w)"
  by (simp add: instance_create_def Let_def inst.defs created_values.defs)

lemma instance_create_fresh:
  "\<forall>x\<in>set (instances w). inst_id x \<noteq> inst_id (fst (instance_create e v w))"
proof
  fix x assume "x \<in> set (instances w)"
  then have "inst_id x < next_instance_id (instances w)"
    by (rule next_instance_id_fresh)
  then show "inst_id x \<noteq> inst_id (fst (instance_create e v w))"
    by (simp add: instance_create_id)
qed

lemma instance_create_world:
  "snd (instance_create e v w) = w\<lparr>instances := instances w @ [fst (instance_create e v w)]\<rparr>"
  by (simp add: instance_create_def Let_def)

lemma instance_create_entropy:
  "fst (instance_create e v (w\<lparr>entropy := n\<rparr>)) = fst (instance_create e v w)"
  by (simp add: instance_create_def Let_def)

lemma instance_create_sgs:
  "security_group_ids (fst (instance_create e v w)) = []"
  by (simp add: instance_create_def Let_def inst.defs created_values.defs)

lemma create_loop_step:
  fixes e ctx base sgs gh num nums acc w
  defines "c \<equiv> fst (instance_create e
                       (instance_values.extend base
                          (created_values.fields (generate_mac e (entropy w)) num)) w)"
  defines "r \<equiv> c\<lparr>security_group_ids := sgs\<rparr>"
  defines "w2 \<equiv> w\<lparr>instances := instances w @ [r], entropy := Suc (entropy w)\<rparr>"
  defines "u \<equiv> r\<lparr>hostname := Some (gh (internal_id r))\<rparr>"
  shows "create_loop e ctx base sgs gh (num # nums) acc w =
     (case instance_get_by_internal_id w2 (inst_id r) of
        None \<Rightarrow> (Inl LockArgumentError, w2)
      | Some r' \<Rightarrow>
          if is_admin ctx \<or> \<not> locked r'
          then create_loop e ctx base sgs gh nums (acc @ [u])
                 (w\<lparr>instances := instances w @ [u], entropy := Suc (entropy w),
                    casts := casts w @ [(scheduler_topic e, run_instance_message e (inst_id r))]\<rparr>)
          else (Inl (InstanceLocked ''update_instance''), w2))"
proof -
  let ?w0 = "w\<lparr>entropy := Suc (entropy w)\<rparr>"
  let ?v = "instance_values.extend base (created_values.fields (generate_mac e (entropy w)) num)"
  have fresh: "\<forall>x\<in>set (instances w). inst_id x \<noteq> inst_id c"
    unfolding c_def by (rule instance_create_fresh)
  have c0: "fst (instance_create e ?v ?w0) = c"
    by (simp add: c_def instance_create_entropy)
  have w1: "snd (instance_create e ?v ?w0) = ?w0\<lparr>instances := instances w @ [c]\<rparr>"
    by (simp add: instance_create_world c0)
  have sg: "add_security_groups (inst_id c) sgs (?w0\<lparr>instances := instances w @ [c]\<rparr>) = (Inr (), w2)"
    using add_security_groups_fresh [OF fresh, of "?w0\<lparr>instances := instances w @ [c]\<rparr>" sgs]
    by (simp add: w2_def r_def c_def instance_create_sgs)
  have fresh_r: "\<forall>x\<in>set (instances w). inst_id x \<noteq> inst_id r"
    using fresh by (simp add: r_def)
  have idr: "inst_id r = inst_id c" "internal_id r = internal_id c"
    by (simp_all add: r_def)
  have up: "instance_update (inst_id c) [Hostname (gh (internal_id c))] w2 =
              (Inr u, w2\<lparr>instances := instances w @ [u]\<rparr>)"
    using instance_update_fresh [OF fresh_r, of w2 "[Hostname (gh (internal_id r))]"]
    by (simp add: w2_def u_def apply_updates_def idr)
  have up': "instance_update (inst_id c) [Hostname (gh (internal_id c))] w2 =
              (Inr u, w\<lparr>instances := instances w @ [u], entropy := Suc (entropy w)\<rparr>)"
    using up by (simp add: w2_def)
  have body: "create_loop e ctx base sgs gh (num # nums) acc w =
     (case update_instance ctx (inst_id c) [Hostname (gh (internal_id c))] w2 of
        (Inl err, w3) \<Rightarrow> (Inl err, w3)
      | (Inr updated, w3) \<Rightarrow>
          create_loop e ctx base sgs gh nums (acc @ [updated])
            (cast (scheduler_topic e) (run_instance_message e (inst_id c)) w3))"
    by (simp only: create_loop.simps Let_def c0 w1 sg prod.case sum.case)
  show ?thesis
  proof (cases "instance_get_by_internal_id w2 (inst_id c)")
    case None
    then show ?thesis
      by (subst body) (simp add: idr update_instance_def checks_instance_lock_missing)
  next
    case (Some r')
    then show ?thesis
      by (subst body)
        (simp add: idr update_instance_def checks_instance_lock_found
          update_instance_undecorated_def up' cast_def)
  qed
qed






lemma ensure_default_security_group_keeps:
  "instances (ensure_default_security_group ctx w) = instances w"
  "casts (ensure_default_security_group ctx w) = casts w"
  "entropy (ensure_default_security_group ctx w) = entropy w"
  by (simp_all add: ensure_default_security_group_def security_group_create_def
      split: option.splits)

lemma create_instances_InrE:
  assumes "create_instances e ctx a w = (Inr out, w')"
  obtains kid rid sgs kdata td where
    "arg_min_count a \<le> allowed_instances e ctx (arg_max_count a) (arg_instance_type a)"
    "resolve_kernel_ramdisk e (arg_image_id a) (arg_kernel_id a) (arg_ramdisk_id a) = Inr (kid, rid)"
    "create_loop e ctx
       (make_base_options e ctx a kid rid kdata td (generate_uid e (entropy w) ''r''))
       sgs (arg_generate_hostname a)
       (range_int (allowed_instances e ctx (arg_max_count a) (arg_instance_type a))) []
       ((ensure_default_security_group ctx w)\<lparr>entropy := Suc (entropy w)\<rparr>) = (Inr out, w')"
  using assms
  by (auto simp: create_instances_def Let_def ensure_default_security_group_keeps
      split: if_splits sum.splits option.splits prod.splits)


section \<open>Batch creation\<close>


text \<open>
  Claim C3. When the quota gate admits fewer instances than the minimum count asked
  for, \<open>create_instances\<close> raises \<open>QuotaError\<close> with the admissible count and leaves the
  world as it was: no record is stored and no message is cast.
\<close>

theorem create_instances_quota_exceeded:
  assumes "allowed_instances e ctx (arg_max_count a) (arg_instance_type a) < arg_min_count a"
  shows "create_instances e ctx a w =
           (Inl (QuotaError (allowed_instances e ctx (arg_max_count a) (arg_instance_type a))
                   ''InstanceLimitExceeded''), w)"
  using assms by (simp add: create_instances_def Let_def)

theorem create_instances_quota_exceeded_witness:
  "create_instances example_env user_ctx (example_args\<lparr>arg_min_count := 3\<rparr>) (store_of []) =
     (Inl (QuotaError 2 ''InstanceLimitExceeded''), store_of [])"
proof -
  have q: "allowed_instances example_env user_ctx
             (arg_max_count (example_args\<lparr>arg_min_count := 3\<rparr>))
             (arg_instance_type (example_args\<lparr>arg_min_count := 3\<rparr>)) = 2"
    by (simp add: example_env_def example_args_def)
  have "allowed_instances example_env user_ctx
             (arg_max_count (example_args\<lparr>arg_min_count := 3\<rparr>))
             (arg_instance_type (example_args\<lparr>arg_min_count := 3\<rparr>))
          < arg_min_count (example_args\<lparr>arg_min_count := 3\<rparr>)"
    by (simp add: example_env_def example_args_def)
  from create_instances_quota_exceeded [OF this, of "store_of []"] show ?thesis
    by (simp only: q)
qed


section \<open>The lock guard on the lifecycle verbs\<close>







section \<open>Termination\<close>

text \<open>
  Claim C4, as amended. When the lock guard admits the call (the context is
  administrative or the instance is not locked), \<open>delete_instance\<close> on an instance whose
  \<open>state_description\<close> is \<open>terminating\<close> returns without error and leaves the world as it
  was: no update (\<open>terminated_at\<close> keeps its value), no record destroyed, no message.
\<close>

theorem delete_terminating_is_noop:
  assumes "instance_get_by_internal_id w k = Some r"
      and "state_description r = ''terminating''"
      and "is_admin ctx \<or> \<not> locked r"
  shows "delete_instance e ctx k w = (Inr (), w)"
  using assms
  by (simp add: delete_instance_def checks_instance_lock_found delete_instance_undecorated_def)

theorem delete_terminating_is_noop_witness:
  "delete_instance example_env user_ctx 42
     (store_of [example_instance\<lparr>state_description := ''terminating''\<rparr>]) =
   (Inr (), store_of [example_instance\<lparr>state_description := ''terminating''\<rparr>])"
proof -
  have "instance_get_by_internal_id
          (store_of [example_instance\<lparr>state_description := ''terminating''\<rparr>]) 42 =
        Some (example_instance\<lparr>state_description := ''terminating''\<rparr>)"
    "state_description (example_instance\<lparr>state_description := ''terminating''\<rparr>) = ''terminating''"
    "is_admin user_ctx \<or> \<not> locked (example_instance\<lparr>state_description := ''terminating''\<rparr>)"
    by code_simp+
  then show ?thesis by (rule delete_terminating_is_noop)
qed

text \<open>
  The claim as written has no condition on the lock. On a locked instance in state
  \<open>terminating\<close> and a context that is not administrative the guard comes first and
  the call raises the locked error.
\<close>

theorem delete_terminating_locked_counterexample:
  "state_description (locked_instance\<lparr>state_description := ''terminating''\<rparr>) = ''terminating'' \<and>
   instance_get_by_internal_id
     (store_of [locked_instance\<lparr>state_description := ''terminating''\<rparr>]) 42 =
     Some (locked_instance\<lparr>state_description := ''terminating''\<rparr>) \<and>
   fst (delete_instance example_env user_ctx 42
          (store_of [locked_instance\<lparr>state_description := ''terminating''\<rparr>])) =
     Inl (InstanceLocked ''delete_instance'')"
  by code_simp

section \<open>Routing\<close>




section \<open>Errors of the guard's lookup\<close>

text \<open>
  Claim C8. The claim is that a guarded verb called with an identifier that resolves
  to no record fails with the store's \<open>NotFound\<close>, unchanged. In the source the lookup
  of the guard is inside its \<open>try\<close>, and the bare \<open>except\<close> replaces \<open>NotFound\<close> by the
  argument error. \<open>delete_instance\<close> has a handler of its own that logs and re-raises
  \<open>NotFound\<close>; under the decorator that handler is never reached. Evaluated on the
  empty store:
\<close>

theorem reboot_missing_instance_raises_argument_error:
  "instance_get_by_internal_id (store_of []) 7 = None \<and>
   reboot example_env user_ctx 7 (store_of []) = (Inl LockArgumentError, store_of []) \<and>
   delete_instance example_env user_ctx 7 (store_of []) = (Inl LockArgumentError, store_of []) \<and>
   delete_instance_undecorated example_env user_ctx 7 (store_of []) = (Inl NotFound, store_of [])"
  by code_simp

section \<open>The boot specification\<close>






section \<open>Termination of a live instance\<close>

lemma apply_update_keeps_id: "inst_id (apply_update u r) = inst_id r"
  by (cases u) simp_all

lemma apply_updates_keeps_id: "inst_id (apply_updates ups r) = inst_id r"
  unfolding apply_updates_def
  by (induction ups arbitrary: r) (simp_all add: apply_update_keeps_id)

lemma update_first_ids:
  "(\<And>x. inst_id (f x) = inst_id x) \<Longrightarrow> map inst_id (update_first i f xs) = map inst_id xs"
  by (induction xs) simp_all

lemma filter_update_first:
  "(\<And>x. inst_id (f x) = inst_id x) \<Longrightarrow>
   filter (\<lambda>x. inst_id x \<noteq> i) (update_first i f xs) = filter (\<lambda>x. inst_id x \<noteq> i) xs"
  by (induction xs) simp_all

lemma delete_instance_returns:
  assumes found: "instance_get_by_internal_id w k = Some r"
      and live: "state_description r \<noteq> ''terminating''"
      and ok: "delete_instance e ctx k w = (Inr (), w')"
  defines "ups \<equiv> [StateDescription ''terminating'', State 0, TerminatedAt (utcnow e)]"
  defines "w1 \<equiv> w\<lparr>instances := update_first (inst_id r) (apply_updates ups) (instances w)\<rparr>"
  shows "if truthy (host r)
         then w' = cast (queue_get_for e (compute_topic e) (host r))
                     \<lparr>msg_method = ''terminate_instance'',
                      msg_args = instance_id_args (inst_id r)\<rparr> w1
         else w' = w1\<lparr>instances := filter (\<lambda>x. inst_id x \<noteq> inst_id r) (instances w1)\<rparr>"
proof -
  have admit: "is_admin ctx \<or> \<not> locked r"
    using ok found by (auto simp: delete_instance_def checks_instance_lock_found split: if_splits)
  then have body: "delete_instance_undecorated e ctx k w = (Inr (), w')"
    using ok found by (simp add: delete_instance_def checks_instance_lock_found)
  obtain res w2 where up: "update_instance ctx (inst_id r) ups w = (res, w2)"
    by (cases "update_instance ctx (inst_id r) ups w")
  from body found live up obtain u where res: "res = Inr u"
    by (cases res) (auto simp: delete_instance_undecorated_def ups_def)
  have w2: "w2 = w1"
    using up res
    by (auto simp: update_instance_def checks_instance_lock_def get_lock_def get_instance_def
        update_instance_undecorated_def instance_update_def w1_def
        split: option.splits if_splits)
  show ?thesis
    using body found live up res w2
    by (auto simp: delete_instance_undecorated_def ups_def instance_destroy_def
        split: option.splits if_splits)
qed

text \<open>
  Claim C7, as amended. Take a call of \<open>delete_instance\<close> that returns without error,
  on an instance that is not in state \<open>terminating\<close>. If the instance has no host
  (\<open>None\<close> or the empty string), the records with its \<open>id\<close> are removed from the
  store and no message is cast. If it has a host, one \<open>terminate_instance\<close> message
  is cast to \<open>queue_get_for(context, FLAGS.compute_topic, host)\<close> and the store keeps
  every record. Nothing is said of the calls that raise: those the lock guard rejects,
  at the call or at the nested \<open>update_instance\<close>.
\<close>

theorem delete_destroys_unplaced_or_casts_to_host:
  assumes "instance_get_by_internal_id w k = Some r"
      and "state_description r \<noteq> ''terminating''"
      and "delete_instance e ctx k w = (Inr (), w')"
  shows "(\<not> truthy (host r) \<longrightarrow>
            instances w' = filter (\<lambda>x. inst_id x \<noteq> inst_id r) (instances w) \<and>
            casts w' = casts w) \<and>
         (truthy (host r) \<longrightarrow>
            casts w' = casts w @
              [(queue_get_for e (compute_topic e) (host r),
                \<lparr>msg_method = ''terminate_instance'',
                 msg_args = instance_id_args (inst_id r)\<rparr>)] \<and>
            map inst_id (instances w') = map inst_id (instances w))"
  using delete_instance_returns [OF assms]
  by (auto simp: cast_def filter_update_first update_first_ids apply_updates_keeps_id)

theorem delete_destroys_unplaced_or_casts_to_host_witness:
  "delete_instance example_env user_ctx 1 (store_of [aligned_instance\<lparr>host := None\<rparr>]) =
     (Inr (), store_of []) \<and>
   instances (store_of []) = [] \<and>
   fst (delete_instance example_env user_ctx 1 (store_of [aligned_instance])) = Inr () \<and>
   casts (snd (delete_instance example_env user_ctx 1 (store_of [aligned_instance]))) =
     [(''compute.node1'',
       \<lparr>msg_method = ''terminate_instance'', msg_args = [(''instance_id'', ArgInt 1)]\<rparr>)] \<and>
   map inst_id (instances (snd (delete_instance example_env user_ctx 1 (store_of [aligned_instance]))))
     = [1]"
proof -
  let ?u = "aligned_instance\<lparr>host := None\<rparr>"
  let ?d = "delete_instance example_env user_ctx 1 (store_of [aligned_instance])"
  have a: "delete_instance example_env user_ctx 1 (store_of [?u]) = (Inr (), store_of [])"
    by code_simp
  have ha: "instance_get_by_internal_id (store_of [?u]) 1 = Some ?u"
    "state_description ?u \<noteq> ''terminating''" "\<not> truthy (host ?u)"
    by code_simp+
  have f: "fst ?d = Inr ()"
    by code_simp
  then have b: "?d = (Inr (), snd ?d)"
    by (metis prod.collapse)
  have hb: "instance_get_by_internal_id (store_of [aligned_instance]) 1 = Some aligned_instance"
    "state_description aligned_instance \<noteq> ''terminating''" "truthy (host aligned_instance)"
    by code_simp+
  have c: "casts (store_of [aligned_instance]) = []"
    "map inst_id (instances (store_of [aligned_instance])) = [1]"
    "queue_get_for example_env (compute_topic example_env) (host aligned_instance) = ''compute.node1''"
    "instance_id_args (inst_id aligned_instance) = [(''instance_id'', ArgInt 1)]"
    "instances (store_of []) = []"
    by code_simp+
  from delete_destroys_unplaced_or_casts_to_host [OF ha(1,2) a]
    delete_destroys_unplaced_or_casts_to_host [OF hb(1,2) b] hb(3) a f c
  show ?thesis by simp
qed

text \<open>
  The claim as written speaks of every delete. On a locked instance without host and a
  context that is not administrative, the guard raises and the record stays.
\<close>

theorem delete_locked_unplaced_counterexample:
  "instance_get_by_internal_id (store_of [locked_instance\<lparr>host := None\<rparr>]) 42 =
     Some (locked_instance\<lparr>host := None\<rparr>) \<and>
   state_description (locked_instance\<lparr>host := None\<rparr>) \<noteq> ''terminating'' \<and>
   host (locked_instance\<lparr>host := None\<rparr>) = None \<and>
   delete_instance example_env user_ctx 42 (store_of [locked_instance\<lparr>host := None\<rparr>]) =
     (Inl (InstanceLocked ''delete_instance''), store_of [locked_instance\<lparr>host := None\<rparr>]) \<and>
   instances (store_of [locked_instance\<lparr>host := None\<rparr>]) = [locked_instance\<lparr>host := None\<rparr>]"
  by code_simp

section \<open>Security groups that do not resolve\<close>

lemma resolve_kernel_ramdisk_error:
  "resolve_kernel_ramdisk e img kid rid = Inl err \<Longrightarrow> err = NotFound"
  by (auto simp: resolve_kernel_ramdisk_def Let_def split: if_splits option.splits)

lemma resolve_security_groups_unresolved:
  "n \<in> set ns \<Longrightarrow> security_group_get_by_name w p n = None \<Longrightarrow>
   resolve_security_groups w p ns = Inl NotFound"
proof (induction ns)
  case Nil
  then show ?case by simp
next
  case (Cons m ns)
  show ?case
  proof (cases "security_group_get_by_name w p m")
    case None
    then show ?thesis by simp
  next
    case (Some g)
    with Cons.prems have "n \<in> set ns" by auto
    from Cons.IH [OF this Cons.prems(2)] Some show ?thesis by simp
  qed
qed

lemma find_append_miss: "\<not> P y \<Longrightarrow> find P (xs @ [y]) = find P xs"
  by (induction xs) simp_all

lemma ensure_default_keeps_other_names:
  "n \<noteq> ''default'' \<Longrightarrow>
   security_group_get_by_name (ensure_default_security_group ctx w) p n =
   security_group_get_by_name w p n"
  by (simp add: ensure_default_security_group_def security_group_create_def
      security_group_get_by_name_def find_append_miss split: option.splits)

text \<open>
  Claim C9, as amended. Let the quota gate admit the minimum count, and let the request
  name a security group that does not resolve in the project of the caller when
  \<open>create_instances\<close> looks it up, that is after the default group has been ensured
  (by \<open>ensure_default_keeps_other_names\<close>, for a name other than \<open>default\<close> this is the
  lookup in the store as the caller left it). Then \<open>create_instances\<close> raises \<open>NotFound\<close>,
  no instance record is stored and no message is cast.
\<close>

theorem create_unresolved_security_group:
  assumes "arg_min_count a \<le> allowed_instances e ctx (arg_max_count a) (arg_instance_type a)"
      and "n \<in> set (normalize_security_group (arg_security_group a))"
      and "security_group_get_by_name (ensure_default_security_group ctx w) (ctx_project_id ctx) n = None"
  shows "fst (create_instances e ctx a w) = Inl NotFound \<and>
         instances (snd (create_instances e ctx a w)) = instances w \<and>
         casts (snd (create_instances e ctx a w)) = casts w"
proof -
  have sg: "resolve_security_groups (ensure_default_security_group ctx w) (ctx_project_id ctx)
              (normalize_security_group (arg_security_group a)) = Inl NotFound"
    using assms(2,3) by (rule resolve_security_groups_unresolved)
  show ?thesis
  proof (cases "resolve_kernel_ramdisk e (arg_image_id a) (arg_kernel_id a) (arg_ramdisk_id a)")
    case (Inl err)
    then have "err = NotFound" by (rule resolve_kernel_ramdisk_error)
    with Inl assms(1) show ?thesis
      by (simp add: create_instances_def Let_def)
  next
    case (Inr kr)
    with assms(1) sg show ?thesis
      by (cases kr)
        (simp add: create_instances_def Let_def ensure_default_security_group_keeps)
  qed
qed

theorem create_unresolved_security_group_witness:
  "fst (create_instances aligned_env user_ctx
          (example_args\<lparr>arg_security_group := SGName ''nosuch''\<rparr>) (store_of [])) = Inl NotFound \<and>
   instances (snd (create_instances aligned_env user_ctx
          (example_args\<lparr>arg_security_group := SGName ''nosuch''\<rparr>) (store_of []))) = [] \<and>
   casts (snd (create_instances aligned_env user_ctx
          (example_args\<lparr>arg_security_group := SGName ''nosuch''\<rparr>) (store_of []))) = []"
proof -
  let ?a = "example_args\<lparr>arg_security_group := SGName ''nosuch''\<rparr>"
  have h: "arg_min_count ?a \<le> allowed_instances aligned_env user_ctx (arg_max_count ?a) (arg_instance_type ?a)"
    "''nosuch'' \<in> set (normalize_security_group (arg_security_group ?a))"
    "security_group_get_by_name (ensure_default_security_group user_ctx (store_of []))
       (ctx_project_id user_ctx) ''nosuch'' = None"
    by code_simp+
  have w: "instances (store_of []) = []" "casts (store_of []) = []"
    by code_simp+
  from create_unresolved_security_group [OF h] w show ?thesis by simp
qed

text \<open>
  The claim as written has no condition on the quota. The quota gate is the first
  statement of \<open>create_instances\<close>: a request over quota that names an unknown group
  raises \<open>QuotaError\<close>, not \<open>NotFound\<close>.
\<close>

theorem create_unresolved_group_over_quota_counterexample:
  "''nosuch'' \<in> set (normalize_security_group
      (arg_security_group (example_args\<lparr>arg_security_group := SGName ''nosuch'', arg_min_count := 3\<rparr>))) \<and>
   security_group_get_by_name (store_of []) (ctx_project_id user_ctx) ''nosuch'' = None \<and>
   security_group_get_by_name (ensure_default_security_group user_ctx (store_of []))
     (ctx_project_id user_ctx) ''nosuch'' = None \<and>
   fst (create_instances aligned_env user_ctx
          (example_args\<lparr>arg_security_group := SGName ''nosuch'', arg_min_count := 3\<rparr>) (store_of [])) =
     Inl (QuotaError 2 ''InstanceLimitExceeded'')"
  by code_simp

section \<open>The nested lock check\<close>

lemma instance_create_internal_id:
  "internal_id (fst (instance_create e v w)) = generate_internal_id e (instances w)"
  by (simp add: instance_create_def Let_def inst.defs created_values.defs)

lemma find_None_append:
  "\<forall>x\<in>set xs. \<not> P x \<Longrightarrow> \<not> P y \<Longrightarrow> find P (xs @ [y]) = None"
  by (induction xs) simp_all

lemma delete_nested_guard:
  assumes "instance_get_by_internal_id w k = Some r"
      and "is_admin ctx \<or> \<not> locked r"
      and "state_description r \<noteq> ''terminating''"
  shows "instance_get_by_internal_id w (inst_id r) = None \<Longrightarrow>
           delete_instance e ctx k w = (Inl LockArgumentError, w)"
    and "instance_get_by_internal_id w (inst_id r) = Some r' \<Longrightarrow> locked r' \<Longrightarrow> \<not> is_admin ctx \<Longrightarrow>
           delete_instance e ctx k w = (Inl (InstanceLocked ''update_instance''), w)"
  using assms
  by (simp_all add: delete_instance_def delete_instance_undecorated_def update_instance_def
      checks_instance_lock_found checks_instance_lock_missing)

lemma create_loop_nested_guard:
  assumes "\<forall>x\<in>set (instances w). internal_id x \<noteq> next_instance_id (instances w)"
      and "generate_internal_id e (instances w) \<noteq> next_instance_id (instances w)"
  shows "fst (create_loop e ctx base sgs gh (num # nums) acc w) = Inl LockArgumentError \<and>
         casts (snd (create_loop e ctx base sgs gh (num # nums) acc w)) = casts w \<and>
         length (instances (snd (create_loop e ctx base sgs gh (num # nums) acc w))) =
           Suc (length (instances w))"
proof -
  define c where "c = fst (instance_create e
                       (instance_values.extend base
                          (created_values.fields (generate_mac e (entropy w)) num)) w)"
  define r where "r = c\<lparr>security_group_ids := sgs\<rparr>"
  define w2 where "w2 = w\<lparr>instances := instances w @ [r], entropy := Suc (entropy w)\<rparr>"
  have ids: "inst_id r = next_instance_id (instances w)"
    "internal_id r = generate_internal_id e (instances w)"
    by (simp_all add: r_def c_def instance_create_id instance_create_internal_id)
  have "instance_get_by_internal_id w2 (inst_id r) = None"
    unfolding instance_get_by_internal_id_def w2_def
    using assms by (simp add: find_None_append ids)
  then have "create_loop e ctx base sgs gh (num # nums) acc w = (Inl LockArgumentError, w2)"
    by (simp add: create_loop_step c_def r_def w2_def del: create_loop.simps)
  then show ?thesis by (simp add: w2_def del: create_loop.simps)
qed

lemma create_instances_nested_guard:
  assumes "\<forall>x\<in>set (instances w). internal_id x \<noteq> next_instance_id (instances w)"
      and "generate_internal_id e (instances w) \<noteq> next_instance_id (instances w)"
      and "0 < allowed_instances e ctx (arg_max_count a) (arg_instance_type a)"
  shows "isl (fst (create_instances e ctx a w))"
proof (rule ccontr)
  assume "\<not> isl (fst (create_instances e ctx a w))"
  then obtain out w' where "create_instances e ctx a w = (Inr out, w')"
    by (cases "create_instances e ctx a w"; cases "fst (create_instances e ctx a w)") auto
  then obtain kid rid sgs kdata td where
    loop: "create_loop e ctx
       (make_base_options e ctx a kid rid kdata td (generate_uid e (entropy w) ''r''))
       sgs (arg_generate_hostname a)
       (range_int (allowed_instances e ctx (arg_max_count a) (arg_instance_type a))) []
       ((ensure_default_security_group ctx w)\<lparr>entropy := Suc (entropy w)\<rparr>) = (Inr out, w')"
    by (rule create_instances_InrE)
  let ?w1 = "(ensure_default_security_group ctx w)\<lparr>entropy := Suc (entropy w)\<rparr>"
  have inst: "instances ?w1 = instances w"
    by (simp add: ensure_default_security_group_keeps)
  obtain num nums where
    nums: "range_int (allowed_instances e ctx (arg_max_count a) (arg_instance_type a)) = num # nums"
    using assms(3) by (cases "range_int (allowed_instances e ctx (arg_max_count a) (arg_instance_type a))")
      (auto simp: range_int_def)
  have "fst (create_loop e ctx
       (make_base_options e ctx a kid rid kdata td (generate_uid e (entropy w) ''r''))
       sgs (arg_generate_hostname a) (num # nums) [] ?w1) = Inl LockArgumentError"
    using create_loop_nested_guard [of ?w1 e] assms(1,2) unfolding inst by blast
  with loop nums show False by simp
qed

text \<open>
  Claim C10. \<open>delete_instance\<close> and the loop of \<open>create_instances\<close> call the guarded
  \<open>update_instance\<close> with the \<open>id\<close> of the record, and the guard looks that number up
  as an \<open>internal_id\<close>. For \<open>delete_instance\<close>, called with a valid \<open>internal_id\<close> on an
  instance that the outer guard admits and that is not terminating: when the \<open>id\<close> of
  the instance is the \<open>internal_id\<close> of no record, the nested check fails with the
  argument error and the world is as before; when it is the \<open>internal_id\<close> of a locked
  record, that record's flag decides, and a caller who is not administrative gets the
  locked error of \<open>update_instance\<close>. For the loop of \<open>create_instances\<close>: when the \<open>id\<close>
  of the record created is the \<open>internal_id\<close> of no record, the new one included, the
  iteration fails with the argument error after the record is stored and before any
  message is cast; hence \<open>create_instances\<close> cannot return once the quota gate admits
  an instance.
\<close>

theorem nested_lock_check_resolves_primary_id:
  "(instance_get_by_internal_id w k = Some r \<and> (is_admin ctx \<or> \<not> locked r) \<and>
    state_description r \<noteq> ''terminating'' \<longrightarrow>
      (instance_get_by_internal_id w (inst_id r) = None \<longrightarrow>
         delete_instance e ctx k w = (Inl LockArgumentError, w)) \<and>
      (\<forall>r'. instance_get_by_internal_id w (inst_id r) = Some r' \<and> locked r' \<and> \<not> is_admin ctx \<longrightarrow>
         delete_instance e ctx k w = (Inl (InstanceLocked ''update_instance''), w))) \<and>
   ((\<forall>x\<in>set (instances w). internal_id x \<noteq> next_instance_id (instances w)) \<and>
    generate_internal_id e (instances w) \<noteq> next_instance_id (instances w) \<longrightarrow>
      fst (create_loop e ctx base sgs gh (num # nums) acc w) = Inl LockArgumentError \<and>
      casts (snd (create_loop e ctx base sgs gh (num # nums) acc w)) = casts w \<and>
      length (instances (snd (create_loop e ctx base sgs gh (num # nums) acc w))) =
        Suc (length (instances w)) \<and>
      (0 < allowed_instances e ctx (arg_max_count a) (arg_instance_type a) \<longrightarrow>
         isl (fst (create_instances e ctx a w))))"
proof (intro conjI impI allI)
  assume h: "instance_get_by_internal_id w k = Some r \<and> (is_admin ctx \<or> \<not> locked r) \<and>
    state_description r \<noteq> ''terminating''"
  assume "instance_get_by_internal_id w (inst_id r) = None"
  with h show "delete_instance e ctx k w = (Inl LockArgumentError, w)"
    by (simp add: delete_nested_guard(1))
next
  fix r'
  assume h: "instance_get_by_internal_id w k = Some r \<and> (is_admin ctx \<or> \<not> locked r) \<and>
    state_description r \<noteq> ''terminating''"
  assume "instance_get_by_internal_id w (inst_id r) = Some r' \<and> locked r' \<and> \<not> is_admin ctx"
  with h show "delete_instance e ctx k w = (Inl (InstanceLocked ''update_instance''), w)"
    by (simp add: delete_nested_guard(2))
next
  assume h: "(\<forall>x\<in>set (instances w). internal_id x \<noteq> next_instance_id (instances w)) \<and>
    generate_internal_id e (instances w) \<noteq> next_instance_id (instances w)"
  then have l: "fst (create_loop e ctx base sgs gh (num # nums) acc w) = Inl LockArgumentError \<and>
         casts (snd (create_loop e ctx base sgs gh (num # nums) acc w)) = casts w \<and>
         length (instances (snd (create_loop e ctx base sgs gh (num # nums) acc w))) =
           Suc (length (instances w))"
    by (intro create_loop_nested_guard) simp_all
  from l show "fst (create_loop e ctx base sgs gh (num # nums) acc w) = Inl LockArgumentError"
    by (rule conjunct1)
  from l show "casts (snd (create_loop e ctx base sgs gh (num # nums) acc w)) = casts w"
    by blast
  from l show "length (instances (snd (create_loop e ctx base sgs gh (num # nums) acc w))) =
           Suc (length (instances w))"
    by blast
  assume "0 < allowed_instances e ctx (arg_max_count a) (arg_instance_type a)"
  with h show "isl (fst (create_instances e ctx a w))"
    by (intro create_instances_nested_guard) simp_all
qed

theorem nested_lock_check_resolves_primary_id_witness:
  "delete_instance example_env user_ctx 42 (store_of [example_instance]) =
     (Inl LockArgumentError, store_of [example_instance]) \<and>
   delete_instance example_env user_ctx 42 (store_of [example_instance, shadowing_instance]) =
     (Inl (InstanceLocked ''update_instance''), store_of [example_instance, shadowing_instance]) \<and>
   isl (fst (create_instances example_env user_ctx example_args (store_of [example_instance])))"
proof -
  let ?w = "store_of [example_instance]"
  let ?v = "store_of [example_instance, shadowing_instance]"
  have h: "instance_get_by_internal_id ?w 42 = Some example_instance"
    "is_admin user_ctx \<or> \<not> locked example_instance"
    "state_description example_instance \<noteq> ''terminating''"
    "instance_get_by_internal_id ?w (inst_id example_instance) = None"
    "\<forall>x\<in>set (instances ?w). internal_id x \<noteq> next_instance_id (instances ?w)"
    "generate_internal_id example_env (instances ?w) \<noteq> next_instance_id (instances ?w)"
    "0 < allowed_instances example_env user_ctx (arg_max_count example_args)
           (arg_instance_type example_args)"
    by code_simp+
  have g: "instance_get_by_internal_id ?v 42 = Some example_instance"
    "instance_get_by_internal_id ?v (inst_id example_instance) = Some shadowing_instance"
    "locked shadowing_instance" "\<not> is_admin user_ctx"
    by code_simp+
  from nested_lock_check_resolves_primary_id
         [where w = ?w and k = 42 and r = example_instance and ctx = user_ctx
            and e = example_env and a = example_args] h
       nested_lock_check_resolves_primary_id
         [where w = ?v and k = 42 and r = example_instance and ctx = user_ctx
            and e = example_env and a = example_args] g
  show ?thesis by blast
qed

end
